theory Spec2Isabelle
  imports Complex_Main "HOL-Library.Multiset"
begin

section \<open>Data model\<close>

text \<open>
  A catalog entry as the remote source delivers it: \<open>{ key, name }\<close>. The name is a map
  from locale to string; it is kept as an association list and plays no part below.
\<close>

record item =
  key :: string
  name :: "(string \<times> string) list"

text \<open>The module variable \<open>data = { rules, stages, weapons }\<close>.\<close>

record catalogs =
  rules :: "item list"
  stages :: "item list"
  weapons :: "item list"

text \<open>
  The shape shared by \<open>selectedItems\<close>, \<open>tempFilterSelections\<close> and
  \<open>filterStateSnapshot\<close>: an array of keys per catalog type. They are arrays in the
  source, so order and repetitions are kept.
\<close>

record selections =
  rule :: "string list"
  stage :: "string list"
  weapon :: "string list"

datatype team = Alpha | Bravo

text \<open>
  The keys of \<open>currentResults\<close>: \<open>`common-${type}`\<close> is \<open>Common type\<close> and
  \<open>`${i}-${type}`\<close> is \<open>Member i type\<close>.
\<close>

datatype slot = Common string | Member nat string

text \<open>
  The module-level variables, together with the one style property the filter code
  drives: \<open>applyFilterSettingsBtn\<close> is True when the button's display is \<open>block\<close> and
  False when it is \<open>none\<close>.
\<close>

record app =
  data :: catalogs
  selectedItems :: selections
  tempFilterSelections :: selections
  filterStateSnapshot :: selections
  currentResults :: "slot \<rightharpoonup> item"
  currentTeams :: "nat \<rightharpoonup> team"
  applyFilterSettingsBtn :: bool

text \<open>
  What an exception of the source carries, as far as the functions below can raise one.
\<close>

datatype error =
    TypeError
  | QuotaExceeded
  | ApiError nat

section \<open>Key-value store\<close>

text \<open>
  \<open>localStorage\<close>. An entry is the JSON text the program wrote, held here as the value it
  parses to, or text that \<open>JSON.parse\<close> rejects. \<open>refuses k\<close> says that \<open>setItem\<close> on
  key \<open>k\<close> throws (quota exceeded, storage denied).
\<close>

datatype stored =
    CatalogJSON "item list"
  | SelectionJSON selections
  | Unparsable

record kvstore =
  entries :: "string \<rightharpoonup> stored"
  refuses :: "string \<Rightarrow> bool"

definition CACHE_KEYS_rule :: string where
  "CACHE_KEYS_rule = ''spla-rules''"

definition CACHE_KEYS_stage :: string where
  "CACHE_KEYS_stage = ''spla-stages''"

definition CACHE_KEYS_weapon :: string where
  "CACHE_KEYS_weapon = ''spla-weapons''"

definition CACHE_KEYS_selectedItems :: string where
  "CACHE_KEYS_selectedItems = ''spla-selected-items''"

definition setItem :: "kvstore \<Rightarrow> string \<Rightarrow> stored \<Rightarrow> error + kvstore" where
  "setItem s k v =
     (if refuses s k then Inl QuotaExceeded
      else Inr (s\<lparr>entries := (entries s)(k \<mapsto> v)\<rparr>))"

definition removeItem :: "kvstore \<Rightarrow> string \<Rightarrow> kvstore" where
  "removeItem s k = s\<lparr>entries := (entries s)(k := None)\<rparr>"

text \<open>
  \<open>saveSelectedItems\<close>: the write sits in a \<open>try\<close> whose \<open>catch\<close> only logs, so a
  refused write leaves the store as it was and nothing is raised.
\<close>

definition saveSelectedItems :: "app \<Rightarrow> kvstore \<Rightarrow> kvstore" where
  "saveSelectedItems st s =
     (case setItem s CACHE_KEYS_selectedItems (SelectionJSON (selectedItems st)) of
        Inl e \<Rightarrow> s
      | Inr s' \<Rightarrow> s')"

text \<open>
  \<open>loadSelectedItems\<close>: a missing entry gives \<open>null\<close>; so does text that does not parse,
  through the \<open>catch\<close>. Anything else is returned as parsed.
\<close>

definition loadSelectedItems :: "kvstore \<Rightarrow> stored option" where
  "loadSelectedItems s =
     (case entries s CACHE_KEYS_selectedItems of
        None \<Rightarrow> None
      | Some Unparsable \<Rightarrow> None
      | Some v \<Rightarrow> Some v)"

section \<open>Selection state machine\<close>

text \<open>
  \<open>initializeFilters\<close>, without the rendering of the check boxes. Every key of the
  current catalogs is selected first; a cached selection then keeps, per type, the keys it
  includes. A cached value that parses to an array has no \<open>rule\<close> property, and the
  callback of the first \<open>filter\<close> over a non-empty key array raises a TypeError on
  \<open>undefined.includes\<close>; over three empty arrays no callback runs. The result names the
  error raised, if any, next to the state reached by then.
\<close>

definition initializeFilters :: "app \<Rightarrow> kvstore \<Rightarrow> error option \<times> app" where
  "initializeFilters st s =
     (let allKeys = \<lparr> rule = map key (rules (data st)),
                      stage = map key (stages (data st)),
                      weapon = map key (weapons (data st)) \<rparr>;
          st0 = st\<lparr>selectedItems := allKeys\<rparr>
      in case loadSelectedItems s of
           None \<Rightarrow> (None, st0\<lparr>tempFilterSelections := allKeys\<rparr>)
         | Some (SelectionJSON cachedSelections) \<Rightarrow>
             (let sel = \<lparr> rule = filter (\<lambda>k. k \<in> set (rule cachedSelections)) (rule allKeys),
                          stage = filter (\<lambda>k. k \<in> set (stage cachedSelections)) (stage allKeys),
                          weapon = filter (\<lambda>k. k \<in> set (weapon cachedSelections)) (weapon allKeys) \<rparr>
              in (None, st\<lparr>selectedItems := sel, tempFilterSelections := sel\<rparr>))
         | Some other \<Rightarrow>
             (if rule allKeys = [] \<and> stage allKeys = [] \<and> weapon allKeys = []
              then (None, st0\<lparr>tempFilterSelections := allKeys\<rparr>)
              else (Some TypeError, st0)))"

text \<open>
  The comparison of \<open>checkFilterChanges\<close> for one type:
  \<open>temp.length !== selected.length || !temp.every(item => selected.includes(item))\<close>.
\<close>

definition changed :: "string list \<Rightarrow> string list \<Rightarrow> bool" where
  "changed temp selected =
     (length temp \<noteq> length selected \<or> \<not> list_all (\<lambda>k. k \<in> set selected) temp)"

definition checkFilterChanges :: "app \<Rightarrow> app" where
  "checkFilterChanges st =
     (let ruleChanged = changed (rule (tempFilterSelections st)) (rule (selectedItems st));
          stageChanged = changed (stage (tempFilterSelections st)) (stage (selectedItems st));
          weaponChanged = changed (weapon (tempFilterSelections st)) (weapon (selectedItems st))
      in if ruleChanged \<or> stageChanged \<or> weaponChanged
         then st\<lparr>applyFilterSettingsBtn := True\<rparr>
         else st\<lparr>applyFilterSettingsBtn := False\<rparr>)"

definition saveCurrentFilterState :: "app \<Rightarrow> app" where
  "saveCurrentFilterState st = st\<lparr>filterStateSnapshot := selectedItems st\<rparr>"

text \<open>
  \<open>applyFilterSettings\<close>: the temporary selections become the selected ones, are written
  to the store, the snapshot is renewed and the button hidden. The closing
  \<open>initializeResults\<close> redraws result cards only.
\<close>

definition applyFilterSettings :: "app \<Rightarrow> kvstore \<Rightarrow> app \<times> kvstore" where
  "applyFilterSettings st s =
     (let st1 = st\<lparr>selectedItems := tempFilterSelections st\<rparr>;
          s1 = saveSelectedItems st1 s;
          st2 = saveCurrentFilterState st1
      in (st2\<lparr>applyFilterSettingsBtn := False\<rparr>, s1))"

text \<open>
  \<open>initializeButtonVisibility\<close>, without the listeners it attaches: the snapshot is taken
  and the temporary selections are reset to a copy of the selected ones. This is the only
  place, besides \<open>initializeFilters\<close>, where pending edits are dropped.
\<close>

definition initializeButtonVisibility :: "app \<Rightarrow> app" where
  "initializeButtonVisibility st =
     (let st1 = saveCurrentFilterState st
      in st1\<lparr>tempFilterSelections := selectedItems st1\<rparr>)"

section \<open>Property lookup by catalog type\<close>

text \<open>
  The functions below index the object literals \<open>{ rule: ..., stage: ..., weapon: ... }\<close>
  with a string. A string that is none of the three own keys still finds the members every
  object inherits from \<open>Object.prototype\<close>; any other string gives \<open>undefined\<close>. The
  table gives, for each inherited member, the value of its \<open>length\<close> property: the
  declared number of parameters of a function, and nothing for \<open>__proto__\<close>, which is
  the prototype object itself.
\<close>

definition objectPrototype :: "string \<rightharpoonup> nat option" where
  "objectPrototype =
     map_of [(''constructor'', Some 1), (''__proto__'', None),
             (''hasOwnProperty'', Some 1), (''isPrototypeOf'', Some 1),
             (''propertyIsEnumerable'', Some 1), (''toLocaleString'', Some 0),
             (''toString'', Some 0), (''valueOf'', Some 0),
             (''__defineGetter__'', Some 2), (''__defineSetter__'', Some 2),
             (''__lookupGetter__'', Some 1), (''__lookupSetter__'', Some 1)]"

text \<open>
  What such a lookup finds: an array, or an inherited member known by its \<open>length\<close>.
  \<open>undefined\<close> is \<open>None\<close> of the option around it.
\<close>

datatype 'a jsval = Array "'a list" | Inherited "nat option"

definition jsLength :: "'a jsval \<Rightarrow> nat option" where
  "jsLength v = (case v of Array xs \<Rightarrow> Some (length xs) | Inherited n \<Rightarrow> n)"

definition itemsMap :: "catalogs \<Rightarrow> string \<Rightarrow> item jsval option" where
  "itemsMap d t =
     (if t = ''rule'' then Some (Array (rules d))
      else if t = ''stage'' then Some (Array (stages d))
      else if t = ''weapon'' then Some (Array (weapons d))
      else map_option Inherited (objectPrototype t))"

definition selectedFor :: "selections \<Rightarrow> string \<Rightarrow> string jsval option" where
  "selectedFor sel t =
     (if t = ''rule'' then Some (Array (rule sel))
      else if t = ''stage'' then Some (Array (stage sel))
      else if t = ''weapon'' then Some (Array (weapon sel))
      else map_option Inherited (objectPrototype t))"

section \<open>Available items\<close>

text \<open>
  \<open>getAvailableItems\<close>. \<open>itemsMap[type] || []\<close> replaces only \<open>undefined\<close>: arrays and
  functions are truthy. \<open>selectedItems[type].length\<close> on \<open>undefined\<close> raises a TypeError.
  With a length other than 0 the function goes on to \<open>items.filter\<close>, which exists on
  arrays only; its callback calls \<open>includes\<close> on the selection, which again exists on
  arrays only and is reached for a non-empty \<open>items\<close>.
\<close>

definition getAvailableItems :: "app \<Rightarrow> string \<Rightarrow> error + item jsval" where
  "getAvailableItems st t =
     (let items = (case itemsMap (data st) t of None \<Rightarrow> Array [] | Some v \<Rightarrow> v)
      in case selectedFor (selectedItems st) t of
           None \<Rightarrow> Inl TypeError
         | Some sel \<Rightarrow>
             if jsLength sel = Some 0 then Inr items
             else (case items of
                     Inherited n \<Rightarrow> Inl TypeError
                   | Array xs \<Rightarrow>
                       (case sel of
                          Array ks \<Rightarrow> Inr (Array (filter (\<lambda>i. key i \<in> set ks) xs))
                        | Inherited n \<Rightarrow> if xs = [] then Inr (Array []) else Inl TypeError)))"

section \<open>Random source\<close>

text \<open>
  A value of \<open>Math.random()\<close>: a number \<open>u\<close> with \<open>0 \<le> u < 1\<close>. Floating-point rounding
  is not modelled.
\<close>

typedef random01 = "{u :: real. 0 \<le> u \<and> u < 1}"
  by (rule exI [of _ 0]) simp

setup_lifting type_definition_random01

text \<open>\<open>Math.floor(Math.random() * n)\<close>, for the value \<open>u\<close> that \<open>Math.random()\<close> returned.\<close>

lift_definition floorRandom :: "random01 \<Rightarrow> nat \<Rightarrow> nat"
  is "\<lambda>u n. nat \<lfloor>u * of_nat n\<rfloor>" .

lift_definition zero01 :: random01 is "0"
  by simp

lift_definition ninetenths01 :: random01 is "9 / 10"
  by simp

section \<open>Roulette\<close>

text \<open>
  The part of the document the draw and the team division read: the parsed value of the
  \<open>memberCount\<close> input, the values of the inputs \<open>memberName1\<close>, \<open>memberName2\<close>, ... that
  exist, whether the elements \<open>commonRule\<close> and \<open>commonStage\<close> exist, and how many result
  cards \<open>result-1\<close>, \<open>result-2\<close>, ... exist (each holds one \<open>.result-weapon\<close> element).
\<close>

record dom =
  memberCount :: nat
  memberNames :: "string list"
  commonRule :: bool
  commonStage :: bool
  resultCards :: nat

text \<open>
  The alert of \<open>runRoulette\<close>: "no available <type name>", for the type given.
\<close>

datatype notice = NoAvailable string

text \<open>
  \<open>selectRandomItem\<close>, \<open>null\<close> being \<open>None\<close>. Indexing an inherited function with a
  number finds nothing.
\<close>

definition selectRandomItem :: "random01 \<Rightarrow> item jsval \<Rightarrow> item option" where
  "selectRandomItem u items =
     (if jsLength items = Some 0 then None
      else (case items of
              Array xs \<Rightarrow> Some (xs ! floorRandom u (length xs))
            | Inherited n \<Rightarrow> None))"

text \<open>
  One pass of the weapon loop of \<open>runRoulette\<close> for member \<open>i\<close>; the \<open>i\<close>-th call of
  \<open>Math.random\<close> returns \<open>rnd (i - 1)\<close>. The result element
  \<open>#result-i .result-<type>\<close> exists for the cards that exist and the type \<open>weapon\<close>.
  The write to \<open>currentResults\<close> is made by a timer 10 ms later, after the item's name was
  read, which raises inside the timer when the item is missing.
\<close>

definition drawForMember ::
  "(nat \<Rightarrow> random01) \<Rightarrow> dom \<Rightarrow> string \<Rightarrow> item jsval \<Rightarrow> (slot \<rightharpoonup> item) \<Rightarrow> nat \<Rightarrow> (slot \<rightharpoonup> item)" where
  "drawForMember rnd d t availableItems res i =
     (let drawn = selectRandomItem (rnd (i - 1)) availableItems;
          resultElement = (i \<le> resultCards d \<and> t = ''weapon'')
      in if resultElement
         then (case drawn of None \<Rightarrow> res | Some it \<Rightarrow> res(Member i t \<mapsto> it))
         else res)"

text \<open>
  \<open>runRoulette\<close>. The state returned is the one reached once the timers started by the
  call have run. An empty pool raises the alert and returns at once.
\<close>

definition runRoulette ::
  "(nat \<Rightarrow> random01) \<Rightarrow> dom \<Rightarrow> app \<Rightarrow> string \<Rightarrow> error + (notice option \<times> app)" where
  "runRoulette rnd d st t =
     (case getAvailableItems st t of
        Inl e \<Rightarrow> Inl e
      | Inr availableItems \<Rightarrow>
          if jsLength availableItems = Some 0 then Inr (Some (NoAvailable t), st)
          else if t = ''rule'' \<or> t = ''stage'' then
            (let drawn = selectRandomItem (rnd 0) availableItems;
                 resultElement = (if t = ''rule'' then commonRule d else commonStage d)
             in if resultElement
                then (case drawn of
                        None \<Rightarrow> Inr (None, st)
                      | Some it \<Rightarrow>
                          Inr (None, st\<lparr>currentResults := (currentResults st)(Common t \<mapsto> it)\<rparr>))
                else Inr (None, st))
          else
            Inr (None,
                 st\<lparr>currentResults :=
                      foldl (drawForMember rnd d t availableItems) (currentResults st)
                        [1 ..< Suc (memberCount d)]\<rparr>))"

section \<open>Shuffle\<close>

text \<open>
  Arrays are objects: a variable holds a reference. The store is the list of the arrays
  allocated so far and a reference is a position in it.

  The loop of \<open>shuffleArray\<close> on the array at reference \<open>p\<close>, from index \<open>i\<close> down to 1;
  \<open>k\<close> counts the calls of \<open>Math.random\<close> made so far. The destructuring assignment
  reads both elements before it writes either.
\<close>

primrec shuffleLoop ::
  "(nat \<Rightarrow> random01) \<Rightarrow> 'a list list \<Rightarrow> nat \<Rightarrow> nat \<Rightarrow> nat \<Rightarrow> 'a list list" where
  "shuffleLoop rnd h p k 0 = h"
| "shuffleLoop rnd h p k (Suc m) =
     (let i = Suc m;
          j = floorRandom (rnd k) (i + 1);
          shuffled = h ! p;
          h' = h[p := shuffled[i := shuffled ! j, j := shuffled ! i]]
      in shuffleLoop rnd h' p (Suc k) m)"

text \<open>
  \<open>shuffleArray\<close>: \<open>[...array]\<close> allocates a new array with the elements of the one at
  \<open>a\<close>; the loop runs on the new one, whose reference is returned.
\<close>

definition shuffleArray ::
  "(nat \<Rightarrow> random01) \<Rightarrow> 'a list list \<Rightarrow> nat \<Rightarrow> nat \<times> 'a list list" where
  "shuffleArray rnd h a =
     (let p = length h;
          h1 = h @ [h ! a]
      in (p, shuffleLoop rnd h1 p 0 (length (h1 ! p) - 1)))"

text \<open>
  The procedure in the words of the specification: for index \<open>i\<close> from \<open>length - 1\<close> down
  to 1, pick \<open>j\<close> in \<open>[0, i]\<close> and swap the elements at \<open>i\<close> and \<open>j\<close>. The draw for index
  \<open>i\<close> is the \<open>(length - 1 - i)\<close>-th.
\<close>

definition swapAt :: "nat \<Rightarrow> nat \<Rightarrow> 'a list \<Rightarrow> 'a list" where
  "swapAt i j xs = xs[i := xs ! j, j := xs ! i]"

definition fisherYates :: "(nat \<Rightarrow> random01) \<Rightarrow> 'a list \<Rightarrow> 'a list" where
  "fisherYates rnd xs =
     foldl (\<lambda>ys i. swapAt i (floorRandom (rnd (length xs - 1 - i)) (i + 1)) ys) xs
       (rev [1 ..< length xs])"

section \<open>Team division\<close>

text \<open>
  The loops that read \<open>document.getElementById(`memberName${i}`).value\<close> for \<open>i\<close> from 1
  to the member count: a missing input gives \<open>null\<close>, and reading \<open>value\<close> of it raises.
\<close>

definition readMemberNames :: "dom \<Rightarrow> error + string list" where
  "readMemberNames d =
     (if memberCount d \<le> length (memberNames d)
      then Inr (take (memberCount d) (memberNames d))
      else Inl TypeError)"

text \<open>\<open>Math.ceil(memberCount / 2)\<close>.\<close>

definition alphaSize :: "nat \<Rightarrow> nat" where
  "alphaSize n = nat \<lceil>real n / 2\<rceil>"

text \<open>
  The inner loop of \<open>displayTeamResults\<close>: the first index, counted from \<open>i\<close>, whose
  name equals \<open>memberName\<close>; the loop breaks there.
\<close>

primrec firstMatch :: "string list \<Rightarrow> string \<Rightarrow> nat \<Rightarrow> nat option" where
  "firstMatch [] memberName i = None"
| "firstMatch (n # ns) memberName i =
     (if n = memberName then Some i else firstMatch ns memberName (Suc i))"

definition assignTeam ::
  "team \<Rightarrow> string list \<Rightarrow> string list \<Rightarrow> (nat \<rightharpoonup> team) \<Rightarrow> (nat \<rightharpoonup> team)" where
  "assignTeam tm names members teams =
     foldl (\<lambda>m memberName.
              case firstMatch names memberName 1 of
                None \<Rightarrow> m
              | Some i \<Rightarrow> m(i \<mapsto> tm))
       teams members"

text \<open>
  \<open>displayTeamResults\<close>: the names are read again, \<open>currentTeams\<close> is emptied, then the
  alpha team is entered and after it the bravo team.
\<close>

definition displayTeamResults :: "dom \<Rightarrow> app \<Rightarrow> string list \<Rightarrow> string list \<Rightarrow> error + app" where
  "displayTeamResults d st alphaTeam bravoTeam =
     (case readMemberNames d of
        Inl e \<Rightarrow> Inl e
      | Inr names \<Rightarrow>
          Inr (st\<lparr>currentTeams :=
                    assignTeam Bravo names bravoTeam
                      (assignTeam Alpha names alphaTeam Map.empty)\<rparr>))"

text \<open>
  The first half of \<open>divideTeams\<close>, up to the two slices. \<open>members\<close> is the only array
  allocated before \<open>shuffleArray\<close> is called.
\<close>

definition splitTeams :: "(nat \<Rightarrow> random01) \<Rightarrow> dom \<Rightarrow> error + (string list \<times> string list)" where
  "splitTeams rnd d =
     (case readMemberNames d of
        Inl e \<Rightarrow> Inl e
      | Inr members \<Rightarrow>
          (let (p, h) = shuffleArray rnd [members] 0;
               shuffledMembers = h ! p;
               alphaTeam = take (alphaSize (memberCount d)) shuffledMembers;
               bravoTeam = drop (alphaSize (memberCount d)) shuffledMembers
           in Inr (alphaTeam, bravoTeam)))"

text \<open>\<open>divideTeams\<close>; the closing \<open>updateResultCardsTeamColor\<close> repaints cards only.\<close>

definition divideTeams :: "(nat \<Rightarrow> random01) \<Rightarrow> dom \<Rightarrow> app \<Rightarrow> error + app" where
  "divideTeams rnd d st =
     (case splitTeams rnd d of
        Inl e \<Rightarrow> Inl e
      | Inr (alphaTeam, bravoTeam) \<Rightarrow> displayTeamResults d st alphaTeam bravoTeam)"

section \<open>Catalog cache\<close>

definition EXCLUDED_ITEMS_rule :: "string list" where
  "EXCLUDED_ITEMS_rule = [''tricolor'']"

definition EXCLUDED_ITEMS_stage :: "string list" where
  "EXCLUDED_ITEMS_stage = [''grand_arena'']"

text \<open>
  \<open>fetchAndCacheData\<close>. \<open>fetched\<close> is what \<open>await Promise.all([...])\<close> gives: the three
  arrays, or the error of a request that failed. Everything is inside one \<open>try\<close> whose
  \<open>catch\<close> logs the error and throws it again, so the result names the error thrown, if
  any, next to the state reached by then.
\<close>

definition fetchAndCacheData ::
  "app \<Rightarrow> kvstore \<Rightarrow> error + (item list \<times> item list \<times> item list)
     \<Rightarrow> error option \<times> app \<times> kvstore" where
  "fetchAndCacheData st s fetched =
     (case fetched of
        Inl e \<Rightarrow> (Some e, st, s)
      | Inr (rulesData, stagesData, weaponsData) \<Rightarrow>
          (let d = \<lparr> rules = filter (\<lambda>i. key i \<notin> set EXCLUDED_ITEMS_rule) rulesData,
                     stages = filter (\<lambda>i. key i \<notin> set EXCLUDED_ITEMS_stage) stagesData,
                     weapons = weaponsData \<rparr>;
               st1 = st\<lparr>data := d\<rparr>
           in case setItem s CACHE_KEYS_rule (CatalogJSON (rules d)) of
                Inl e \<Rightarrow> (Some e, st1, s)
              | Inr s1 \<Rightarrow>
                  (case setItem s1 CACHE_KEYS_stage (CatalogJSON (stages d)) of
                     Inl e \<Rightarrow> (Some e, st1, s1)
                   | Inr s2 \<Rightarrow>
                       (case setItem s2 CACHE_KEYS_weapon (CatalogJSON (weapons d)) of
                          Inl e \<Rightarrow> (Some e, st1, s2)
                        | Inr s3 \<Rightarrow> (None, st1, s3)))))"

text \<open>
  \<open>refreshData\<close>: the four cache entries are removed, the catalogs fetched and the
  filters initialised. Any error raised on the way ends in the \<open>catch\<close>, which logs it
  and shows the status text "update failed"; the first component says whether that
  happened. The redrawing of the result cards at the end of \<open>initializeUI\<close> is left out.
\<close>

definition refreshData ::
  "app \<Rightarrow> kvstore \<Rightarrow> error + (item list \<times> item list \<times> item list)
     \<Rightarrow> bool \<times> app \<times> kvstore" where
  "refreshData st s fetched =
     (let s0 = removeItem (removeItem (removeItem (removeItem s CACHE_KEYS_rule)
                 CACHE_KEYS_stage) CACHE_KEYS_weapon) CACHE_KEYS_selectedItems
      in case fetchAndCacheData st s0 fetched of
           (Some e, st1, s1) \<Rightarrow> (True, st1, s1)
         | (None, st1, s1) \<Rightarrow>
             (case initializeFilters st1 s1 of
                (Some e, st2) \<Rightarrow> (True, st2, s1)
              | (None, st2) \<Rightarrow> (False, st2, s1)))"

section \<open>Sample states\<close>

text \<open>
  The values the module variables start with, two stores, a document with \<open>n\<close> members,
  catalogs of a few entries, and a stream of \<open>Math.random\<close> values.
\<close>

definition exampleItem :: "string \<Rightarrow> item" where
  "exampleItem k = \<lparr> key = k, name = [(''ja_JP'', k)] \<rparr>"

definition noSelections :: selections where
  "noSelections = \<lparr> rule = [], stage = [], weapon = [] \<rparr>"

definition initialApp :: app where
  "initialApp =
     \<lparr> data = \<lparr> rules = [], stages = [], weapons = [] \<rparr>,
       selectedItems = noSelections,
       tempFilterSelections = noSelections,
       filterStateSnapshot = noSelections,
       currentResults = Map.empty,
       currentTeams = Map.empty,
       applyFilterSettingsBtn = False \<rparr>"

definition emptyStore :: kvstore where
  "emptyStore = \<lparr> entries = Map.empty, refuses = (\<lambda>k. False) \<rparr>"

definition deniedStore :: kvstore where
  "deniedStore = \<lparr> entries = Map.empty, refuses = (\<lambda>k. True) \<rparr>"

definition exampleDom :: "nat \<Rightarrow> string list \<Rightarrow> dom" where
  "exampleDom n names =
     \<lparr> memberCount = n, memberNames = names, commonRule = True, commonStage = True,
       resultCards = n \<rparr>"

definition sameNames :: dom where
  "sameNames = exampleDom 2 [''X'', ''X'']"

definition catalogApp :: app where
  "catalogApp =
     initialApp\<lparr>data := \<lparr> rules = [exampleItem ''area'', exampleItem ''nawabari''],
                           stages = [exampleItem ''yunohana''],
                           weapons = [exampleItem ''sshooter'', exampleItem ''wakaba''] \<rparr>\<rparr>"

definition staleSelection :: selections where
  "staleSelection = \<lparr> rule = [''asari'', ''area''], stage = [], weapon = [''wakaba''] \<rparr>"

definition staleStore :: kvstore where
  "staleStore =
     \<lparr> entries = [CACHE_KEYS_selectedItems \<mapsto> SelectionJSON staleSelection],
       refuses = (\<lambda>k. False) \<rparr>"

definition editedApp :: app where
  "editedApp = catalogApp\<lparr>tempFilterSelections := staleSelection\<rparr>"

definition fetchedExample :: "error + (item list \<times> item list \<times> item list)" where
  "fetchedExample =
     Inr ([exampleItem ''area'', exampleItem ''tricolor''],
          [exampleItem ''grand_arena'', exampleItem ''yunohana''],
          [exampleItem ''tricolor'', exampleItem ''sshooter''])"

definition varied :: "nat \<Rightarrow> random01" where
  "varied k = (if k = 0 then zero01 else ninetenths01)"

section \<open>Staging of filter selections\<close>

lemma changed_same: "\<not> changed ks ks"
  by (simp add: changed_def list_all_iff)

text \<open>
  C1. Whatever the state, applying the temporary selections and then running the change
  check leaves the apply button hidden (not dirty); so does resetting the temporary
  selections to the selected ones and then running the change check.
\<close>

theorem commit_discard_not_dirty:
  "applyFilterSettingsBtn (checkFilterChanges (fst (applyFilterSettings st s))) = False
   \<and> applyFilterSettingsBtn (checkFilterChanges (initializeButtonVisibility st)) = False"
  by (simp add: applyFilterSettings_def initializeButtonVisibility_def
      saveCurrentFilterState_def checkFilterChanges_def changed_same Let_def)

theorem commit_discard_not_dirty_witness:
  "applyFilterSettingsBtn (checkFilterChanges editedApp) = True
   \<and> applyFilterSettingsBtn (checkFilterChanges (fst (applyFilterSettings editedApp emptyStore))) = False
   \<and> applyFilterSettingsBtn (checkFilterChanges (initializeButtonVisibility editedApp)) = False"
  using commit_discard_not_dirty [of editedApp emptyStore]
  by (simp add: editedApp_def catalogApp_def initialApp_def noSelections_def staleSelection_def
      checkFilterChanges_def changed_def)

section \<open>Initialisation of the selections\<close>

text \<open>
  C2. With a stored selection, initialisation makes the selected keys of each type the
  stored keys that are keys of the current catalog; with no stored selection, all keys of
  the catalog. The temporary selections equal the selected ones, and whenever
  initialisation completes both hold keys of the current catalogs only.
\<close>

theorem initializeFilters_intersection:
  "(entries s CACHE_KEYS_selectedItems = Some (SelectionJSON c) \<longrightarrow>
      (\<exists>st'. initializeFilters st s = (None, st')
         \<and> set (rule (selectedItems st')) = set (rule c) \<inter> key ` set (rules (data st))
         \<and> set (stage (selectedItems st')) = set (stage c) \<inter> key ` set (stages (data st))
         \<and> set (weapon (selectedItems st')) = set (weapon c) \<inter> key ` set (weapons (data st))
         \<and> tempFilterSelections st' = selectedItems st'
         \<and> data st' = data st))
   \<and> (entries s CACHE_KEYS_selectedItems = None \<longrightarrow>
      (\<exists>st'. initializeFilters st s = (None, st')
         \<and> rule (selectedItems st') = map key (rules (data st))
         \<and> stage (selectedItems st') = map key (stages (data st))
         \<and> weapon (selectedItems st') = map key (weapons (data st))
         \<and> tempFilterSelections st' = selectedItems st'
         \<and> data st' = data st))
   \<and> (\<forall>st'. initializeFilters st s = (None, st') \<longrightarrow>
         set (rule (selectedItems st')) \<subseteq> key ` set (rules (data st'))
         \<and> set (stage (selectedItems st')) \<subseteq> key ` set (stages (data st'))
         \<and> set (weapon (selectedItems st')) \<subseteq> key ` set (weapons (data st'))
         \<and> set (rule (tempFilterSelections st')) \<subseteq> key ` set (rules (data st'))
         \<and> set (stage (tempFilterSelections st')) \<subseteq> key ` set (stages (data st'))
         \<and> set (weapon (tempFilterSelections st')) \<subseteq> key ` set (weapons (data st')))"
proof -
  have stored: "entries s CACHE_KEYS_selectedItems = Some (SelectionJSON c) \<longrightarrow>
      (\<exists>st'. initializeFilters st s = (None, st')
         \<and> set (rule (selectedItems st')) = set (rule c) \<inter> key ` set (rules (data st))
         \<and> set (stage (selectedItems st')) = set (stage c) \<inter> key ` set (stages (data st))
         \<and> set (weapon (selectedItems st')) = set (weapon c) \<inter> key ` set (weapons (data st))
         \<and> tempFilterSelections st' = selectedItems st'
         \<and> data st' = data st)"
    by (auto simp: initializeFilters_def loadSelectedItems_def Let_def)
  have absent: "entries s CACHE_KEYS_selectedItems = None \<longrightarrow>
      (\<exists>st'. initializeFilters st s = (None, st')
         \<and> rule (selectedItems st') = map key (rules (data st))
         \<and> stage (selectedItems st') = map key (stages (data st))
         \<and> weapon (selectedItems st') = map key (weapons (data st))
         \<and> tempFilterSelections st' = selectedItems st'
         \<and> data st' = data st)"
    by (simp add: initializeFilters_def loadSelectedItems_def Let_def)
  have subset: "\<forall>st'. initializeFilters st s = (None, st') \<longrightarrow>
         set (rule (selectedItems st')) \<subseteq> key ` set (rules (data st'))
         \<and> set (stage (selectedItems st')) \<subseteq> key ` set (stages (data st'))
         \<and> set (weapon (selectedItems st')) \<subseteq> key ` set (weapons (data st'))
         \<and> set (rule (tempFilterSelections st')) \<subseteq> key ` set (rules (data st'))
         \<and> set (stage (tempFilterSelections st')) \<subseteq> key ` set (stages (data st'))
         \<and> set (weapon (tempFilterSelections st')) \<subseteq> key ` set (weapons (data st'))"
    by (auto simp: initializeFilters_def Let_def split: option.splits stored.splits if_splits)
  from stored absent subset show ?thesis by blast
qed

theorem initializeFilters_intersection_witness:
  "entries staleStore CACHE_KEYS_selectedItems = Some (SelectionJSON staleSelection)
   \<and> entries emptyStore CACHE_KEYS_selectedItems = None
   \<and> (\<exists>st'. initializeFilters catalogApp staleStore = (None, st')
         \<and> set (rule (selectedItems st')) = {''area''}
         \<and> set (stage (selectedItems st')) = {}
         \<and> set (weapon (selectedItems st')) = {''wakaba''}
         \<and> tempFilterSelections st' = selectedItems st')
   \<and> (\<exists>st'. initializeFilters catalogApp emptyStore = (None, st')
         \<and> rule (selectedItems st') = [''area'', ''nawabari''])"
proof -
  have h1: "entries staleStore CACHE_KEYS_selectedItems = Some (SelectionJSON staleSelection)"
    by (simp add: staleStore_def)
  have h2: "entries emptyStore CACHE_KEYS_selectedItems = None"
    by (simp add: emptyStore_def)
  have d: "data catalogApp =
             \<lparr> rules = [exampleItem ''area'', exampleItem ''nawabari''],
               stages = [exampleItem ''yunohana''],
               weapons = [exampleItem ''sshooter'', exampleItem ''wakaba''] \<rparr>"
    by (simp add: catalogApp_def)
  have stored: "\<exists>st'. initializeFilters catalogApp staleStore = (None, st')
         \<and> set (rule (selectedItems st')) = {''area''}
         \<and> set (stage (selectedItems st')) = {}
         \<and> set (weapon (selectedItems st')) = {''wakaba''}
         \<and> tempFilterSelections st' = selectedItems st'"
    using initializeFilters_intersection [of staleStore staleSelection catalogApp] h1
    by (auto simp: d staleSelection_def exampleItem_def)
  have absent: "\<exists>st'. initializeFilters catalogApp emptyStore = (None, st')
         \<and> rule (selectedItems st') = [''area'', ''nawabari'']"
    using initializeFilters_intersection [of emptyStore staleSelection catalogApp] h2
    by (auto simp: d exampleItem_def)
  from h1 h2 stored absent show ?thesis by blast
qed

section \<open>Available items\<close>

lemma itemsMap_own:
  "itemsMap d ''rule'' = Some (Array (rules d))"
  "itemsMap d ''stage'' = Some (Array (stages d))"
  "itemsMap d ''weapon'' = Some (Array (weapons d))"
  by (simp_all add: itemsMap_def)

lemma selectedFor_own:
  "selectedFor sel ''rule'' = Some (Array (rule sel))"
  "selectedFor sel ''stage'' = Some (Array (stage sel))"
  "selectedFor sel ''weapon'' = Some (Array (weapon sel))"
  by (simp_all add: selectedFor_def)

text \<open>
  C3. For each of the three catalog types, the available items are the whole catalog
  when nothing is selected for the type, and otherwise the catalog entries, in catalog
  order, whose key is selected.
\<close>

theorem getAvailableItems_fallback:
  "getAvailableItems st ''rule'' =
     Inr (Array (if rule (selectedItems st) = [] then rules (data st)
                 else filter (\<lambda>i. key i \<in> set (rule (selectedItems st))) (rules (data st))))
   \<and> getAvailableItems st ''stage'' =
     Inr (Array (if stage (selectedItems st) = [] then stages (data st)
                 else filter (\<lambda>i. key i \<in> set (stage (selectedItems st))) (stages (data st))))
   \<and> getAvailableItems st ''weapon'' =
     Inr (Array (if weapon (selectedItems st) = [] then weapons (data st)
                 else filter (\<lambda>i. key i \<in> set (weapon (selectedItems st))) (weapons (data st))))"
  by (simp add: getAvailableItems_def itemsMap_own selectedFor_own jsLength_def)

theorem getAvailableItems_fallback_witness:
  "rule (selectedItems catalogApp) = []
   \<and> getAvailableItems catalogApp ''rule'' =
       Inr (Array [exampleItem ''area'', exampleItem ''nawabari''])
   \<and> getAvailableItems (catalogApp\<lparr>selectedItems := staleSelection\<rparr>) ''rule'' =
       Inr (Array [exampleItem ''area''])"
  using getAvailableItems_fallback [of catalogApp]
    getAvailableItems_fallback [of "catalogApp\<lparr>selectedItems := staleSelection\<rparr>"]
  by (simp add: catalogApp_def initialApp_def noSelections_def staleSelection_def exampleItem_def)


lemma getAvailableItems_toString:
  "getAvailableItems st ''toString'' = Inr (Inherited (Some 0))"
  by (simp add: getAvailableItems_def itemsMap_def selectedFor_def objectPrototype_def
      jsLength_def)

section \<open>Exclusion list\<close>

text \<open>
  C4. When the three requests succeed, the rule and stage catalogs kept in memory are the
  fetched ones without the entries whose key is on the exclusion list of their type, the
  weapon catalog is the fetched one unchanged, each of the three cache entries is either
  left as it was or holds the catalog kept in memory, and holds it when no error is raised.
\<close>

theorem fetchAndCacheData_excludes:
  assumes "fetchAndCacheData st s (Inr (rulesData, stagesData, weaponsData)) = (res, st', s')"
  shows "rules (data st') = filter (\<lambda>i. key i \<notin> set EXCLUDED_ITEMS_rule) rulesData
       \<and> stages (data st') = filter (\<lambda>i. key i \<notin> set EXCLUDED_ITEMS_stage) stagesData
       \<and> weapons (data st') = weaponsData
       \<and> (\<forall>i \<in> set (rules (data st')). key i \<notin> set EXCLUDED_ITEMS_rule)
       \<and> (\<forall>i \<in> set (stages (data st')). key i \<notin> set EXCLUDED_ITEMS_stage)
       \<and> (entries s' CACHE_KEYS_rule = entries s CACHE_KEYS_rule
            \<or> entries s' CACHE_KEYS_rule = Some (CatalogJSON (rules (data st'))))
       \<and> (entries s' CACHE_KEYS_stage = entries s CACHE_KEYS_stage
            \<or> entries s' CACHE_KEYS_stage = Some (CatalogJSON (stages (data st'))))
       \<and> (entries s' CACHE_KEYS_weapon = entries s CACHE_KEYS_weapon
            \<or> entries s' CACHE_KEYS_weapon = Some (CatalogJSON weaponsData))
       \<and> (res = None \<longrightarrow>
            entries s' CACHE_KEYS_rule = Some (CatalogJSON (rules (data st')))
            \<and> entries s' CACHE_KEYS_stage = Some (CatalogJSON (stages (data st')))
            \<and> entries s' CACHE_KEYS_weapon = Some (CatalogJSON weaponsData))"
  using assms
  by (auto simp: fetchAndCacheData_def setItem_def Let_def CACHE_KEYS_rule_def
      CACHE_KEYS_stage_def CACHE_KEYS_weapon_def split: if_splits)

theorem fetchAndCacheData_excludes_witness:
  "\<exists>st' s'. fetchAndCacheData initialApp emptyStore fetchedExample = (None, st', s')
      \<and> rules (data st') = [exampleItem ''area'']
      \<and> stages (data st') = [exampleItem ''yunohana'']
      \<and> weapons (data st') = [exampleItem ''tricolor'', exampleItem ''sshooter'']
      \<and> entries s' CACHE_KEYS_rule = Some (CatalogJSON [exampleItem ''area''])"
proof -
  obtain res st' s' where r: "fetchAndCacheData initialApp emptyStore fetchedExample = (res, st', s')"
    by (cases "fetchAndCacheData initialApp emptyStore fetchedExample")
  have res: "res = None"
    using r by (auto simp: fetchAndCacheData_def fetchedExample_def emptyStore_def setItem_def Let_def)
  show ?thesis
    using fetchAndCacheData_excludes [OF r [unfolded fetchedExample_def]] r res
    by (simp add: exampleItem_def EXCLUDED_ITEMS_rule_def EXCLUDED_ITEMS_stage_def)
qed

section \<open>Draw on an empty pool\<close>

text \<open>
  C5. Whatever the type and the member count, when the available items are the empty
  array the draw returns after the alert that names the type, and the state, the draw
  results included, is the one it started from.
\<close>

theorem runRoulette_empty_pool:
  assumes "getAvailableItems st t = Inr (Array [])"
  shows "runRoulette rnd d st t = Inr (Some (NoAvailable t), st)"
  using assms by (simp add: runRoulette_def jsLength_def)

theorem runRoulette_empty_pool_witness:
  "getAvailableItems initialApp ''weapon'' = Inr (Array [])
   \<and> runRoulette varied (exampleDom 4 [''a'', ''b'', ''c'', ''d'']) initialApp ''weapon''
       = Inr (Some (NoAvailable ''weapon''), initialApp)"
proof -
  have pool: "getAvailableItems initialApp ''weapon'' = Inr (Array [])"
    by (simp add: getAvailableItems_def itemsMap_def selectedFor_def jsLength_def initialApp_def
        noSelections_def)
  show ?thesis
    using pool runRoulette_empty_pool [OF pool] by simp
qed

section \<open>Shuffle\<close>

lemma floorRandom_less: "0 < n \<Longrightarrow> floorRandom u n < n"
proof transfer
  fix n :: nat and u :: real
  assume n: "0 < n" and u: "0 \<le> u \<and> u < 1"
  have "u * of_nat n < of_nat n" using n u by simp
  then have "\<lfloor>u * of_nat n\<rfloor> < int n" by (simp add: floor_less_iff)
  moreover have "0 \<le> \<lfloor>u * of_nat n\<rfloor>" using u by simp
  ultimately show "nat \<lfloor>u * of_nat n\<rfloor> < n" by linarith
qed

lemma floorRandom_le: "floorRandom u (i + 1) \<le> i"
  using floorRandom_less [of "i + 1" u] by simp

lemma floorRandom_onto: "j \<le> i \<Longrightarrow> \<exists>u. floorRandom u (i + 1) = j"
proof transfer
  fix j i :: nat
  assume ji: "j \<le> i"
  let ?u = "real j / real (i + 1)"
  have "0 \<le> ?u \<and> ?u < 1" using ji by simp
  moreover have "nat \<lfloor>?u * real (i + 1)\<rfloor> = j" by simp
  ultimately show "\<exists>u\<in>{u. 0 \<le> u \<and> u < 1}. nat \<lfloor>u * real (i + 1)\<rfloor> = j" by blast
qed

lemma floorRandom_values:
  "floorRandom zero01 n = 0" "floorRandom ninetenths01 (Suc (Suc 0)) = Suc 0"
  by (simp_all add: floorRandom.rep_eq zero01.rep_eq ninetenths01.rep_eq)

lemma length_shuffleLoop: "length (shuffleLoop rnd h p k i) = length h"
  by (induction i arbitrary: h k) (simp_all add: Let_def)

lemma shuffleLoop_other: "q \<noteq> p \<Longrightarrow> shuffleLoop rnd h p k i ! q = h ! q"
  by (induction i arbitrary: h k) (simp_all add: Let_def)

lemma mset_swapAt: "i < length xs \<Longrightarrow> j < length xs \<Longrightarrow> mset (swapAt i j xs) = mset xs"
  unfolding swapAt_def by (simp add: mset_swap)

lemma length_swapAt: "length (swapAt i j xs) = length xs"
  by (simp add: swapAt_def)

text \<open>The loop on the store, read at its own array, is the fold over the indices.\<close>

lemma shuffleLoop_fold:
  "p < length h \<Longrightarrow>
   shuffleLoop rnd h p k i ! p =
     foldl (\<lambda>ys i'. swapAt i' (floorRandom (rnd (k + i - i')) (i' + 1)) ys) (h ! p)
       (rev [1 ..< Suc i])"
proof (induction i arbitrary: h k)
  case 0
  then show ?case by simp
next
  case (Suc m)
  let ?j = "floorRandom (rnd k) (Suc m + 1)"
  let ?h' = "h[p := swapAt (Suc m) ?j (h ! p)]"
  have step: "shuffleLoop rnd h p k (Suc m) = shuffleLoop rnd ?h' p (Suc k) m"
    by (simp add: Let_def swapAt_def)
  have p': "p < length ?h'" using Suc.prems by simp
  have hp: "?h' ! p = swapAt (Suc m) ?j (h ! p)" using Suc.prems by simp
  have "shuffleLoop rnd ?h' p (Suc k) m ! p =
        foldl (\<lambda>ys i'. swapAt i' (floorRandom (rnd (Suc k + m - i')) (i' + 1)) ys)
          (swapAt (Suc m) ?j (h ! p)) (rev [1 ..< Suc m])"
    using Suc.IH [OF p', of "Suc k"] hp by simp
  also have "\<dots> =
        foldl (\<lambda>ys i'. swapAt i' (floorRandom (rnd (k + Suc m - i')) (i' + 1)) ys)
          (swapAt (Suc m) ?j (h ! p)) (rev [1 ..< Suc m])"
    by simp
  also have "\<dots> =
        foldl (\<lambda>ys i'. swapAt i' (floorRandom (rnd (k + Suc m - i')) (i' + 1)) ys)
          (h ! p) (rev [1 ..< Suc (Suc m)])"
    by simp
  finally show ?case using step by simp
qed

lemma foldl_swaps_mset:
  "\<forall>i \<in> set is. i < length xs \<Longrightarrow>
   mset (foldl (\<lambda>ys i. swapAt i (floorRandom (f i) (i + 1)) ys) xs is) = mset xs
   \<and> length (foldl (\<lambda>ys i. swapAt i (floorRandom (f i) (i + 1)) ys) xs is) = length xs"
proof (induction "is" arbitrary: xs)
  case Nil
  then show ?case by simp
next
  case (Cons i "is")
  have i: "i < length xs" using Cons.prems by simp
  have j: "floorRandom (f i) (i + 1) < length xs"
    using floorRandom_le [of "f i" i] i by linarith
  let ?xs' = "swapAt i (floorRandom (f i) (i + 1)) xs"
  have "\<forall>i' \<in> set is. i' < length ?xs'" using Cons.prems by (simp add: length_swapAt)
  from Cons.IH [OF this] show ?case
    using i j by (simp add: mset_swapAt length_swapAt)
qed

lemma fisherYates_perm:
  "mset (fisherYates rnd xs) = mset xs \<and> length (fisherYates rnd xs) = length xs"
  unfolding fisherYates_def
  by (rule foldl_swaps_mset [of "rev [1 ..< length xs]" xs "\<lambda>i. rnd (length xs - 1 - i)"]) simp

lemma shuffleArray_fisherYates:
  assumes "a < length h"
  shows "snd (shuffleArray rnd h a) ! fst (shuffleArray rnd h a) = fisherYates rnd (h ! a)"
proof -
  let ?h1 = "h @ [h ! a]"
  let ?n = "length (h ! a)"
  have "shuffleLoop rnd ?h1 (length h) 0 (?n - 1) ! length h =
        foldl (\<lambda>ys i'. swapAt i' (floorRandom (rnd (0 + (?n - 1) - i')) (i' + 1)) ys) (?h1 ! length h)
          (rev [1 ..< Suc (?n - 1)])"
    by (rule shuffleLoop_fold) simp
  moreover have "[1 ..< Suc (?n - 1)] = [1 ..< ?n]"
    by (cases "?n") simp_all
  ultimately show ?thesis
    by (simp add: shuffleArray_def Let_def fisherYates_def)
qed

text \<open>
  C8. For an array in the store, \<open>shuffleArray\<close> returns the reference of a new array
  that holds the same elements as often as the given one, has its length, and is what the
  procedure of the specification computes from it: for each index from the last down to 1
  one swap with an index drawn from 0 up to it, every such index being a possible draw.
  The given array and every other array of the store are as they were.
\<close>

theorem shuffleArray_permutation:
  assumes "a < length h"
  shows "case shuffleArray rnd h a of
           (p, h') \<Rightarrow>
             mset (h' ! p) = mset (h ! a)
             \<and> length (h' ! p) = length (h ! a)
             \<and> h' ! p = fisherYates rnd (h ! a)
             \<and> (\<forall>u i. floorRandom u (i + 1) \<le> i)
             \<and> (\<forall>i j. j \<le> i \<longrightarrow> (\<exists>u. floorRandom u (i + 1) = j))
             \<and> p \<noteq> a
             \<and> length h' = Suc (length h)
             \<and> (\<forall>b < length h. h' ! b = h ! b)"
proof -
  obtain p h' where ph: "shuffleArray rnd h a = (p, h')" by (cases "shuffleArray rnd h a")
  have p: "p = length h" using ph by (auto simp: shuffleArray_def Let_def)
  have h': "h' = shuffleLoop rnd (h @ [h ! a]) (length h) 0 (length (h ! a) - 1)"
    using ph by (auto simp: shuffleArray_def Let_def)
  have fy: "h' ! p = fisherYates rnd (h ! a)"
    using shuffleArray_fisherYates [OF assms, of rnd] ph by simp
  have other: "\<forall>b < length h. h' ! b = h ! b"
    by (simp add: h' shuffleLoop_other nth_append)
  have len: "length h' = Suc (length h)"
    by (simp add: h' length_shuffleLoop)
  have draws: "(\<forall>u i. floorRandom u (i + 1) \<le> i)
               \<and> (\<forall>i j. j \<le> i \<longrightarrow> (\<exists>u. floorRandom u (i + 1) = j))"
    using floorRandom_le floorRandom_onto by blast
  show ?thesis
    using fy other len p assms draws fisherYates_perm [of rnd "h ! a"] by (simp add: ph)
qed

theorem shuffleArray_permutation_witness:
  "(0::nat) < length [[''a'', ''b'', ''c'']]
   \<and> shuffleArray varied [[''a'', ''b'', ''c'']] 0
       = (1, [[''a'', ''b'', ''c''], [''c'', ''b'', ''a'']])
   \<and> fisherYates varied [''a'', ''b'', ''c''] = [''c'', ''b'', ''a'']"
proof -
  have h: "(0::nat) < length [[''a'', ''b'', ''c'']]" by simp
  have run: "shuffleArray varied [[''a'', ''b'', ''c'']] 0
               = (1, [[''a'', ''b'', ''c''], [''c'', ''b'', ''a'']])"
    by (simp add: shuffleArray_def varied_def floorRandom_values Let_def numeral_2_eq_2)
  have fy: "fisherYates varied [''a'', ''b'', ''c''] = [''c'', ''b'', ''a'']"
    using shuffleArray_permutation [OF h, of varied, unfolded run] by simp
  from h run fy show ?thesis by blast
qed

section \<open>Team division\<close>

lemma alphaSize_half: "alphaSize n = (n + 1) div 2"
  unfolding alphaSize_def by linarith

lemma splitTeams_shuffled:
  assumes "memberCount d = length (memberNames d)"
  shows "splitTeams rnd d =
           Inr (take (alphaSize (memberCount d)) (fisherYates rnd (memberNames d)),
                drop (alphaSize (memberCount d)) (fisherYates rnd (memberNames d)))"
proof -
  have "snd (shuffleArray rnd [memberNames d] 0) ! fst (shuffleArray rnd [memberNames d] 0)
        = fisherYates rnd ([memberNames d] ! 0)"
    by (rule shuffleArray_fisherYates) simp
  then show ?thesis
    using assms by (simp add: splitTeams_def readMemberNames_def Let_def split_beta)
qed

text \<open>
  C6. With one name input per member and at least one member, the division succeeds:
  the alpha team has \<open>ceil(n/2)\<close> names, the bravo team the other \<open>n - ceil(n/2)\<close>, the two
  teams together hold every given name exactly as often as it was given, and a single
  member is alone in the alpha team.
\<close>

theorem divideTeams_sizes:
  assumes "memberCount d = length (memberNames d)" and "1 \<le> memberCount d"
  shows "\<exists>alphaTeam bravoTeam.
           splitTeams rnd d = Inr (alphaTeam, bravoTeam)
           \<and> length alphaTeam = nat \<lceil>real (memberCount d) / 2\<rceil>
           \<and> length bravoTeam = memberCount d - nat \<lceil>real (memberCount d) / 2\<rceil>
           \<and> mset (alphaTeam @ bravoTeam) = mset (memberNames d)
           \<and> (memberCount d = 1 \<longrightarrow> alphaTeam = memberNames d \<and> bravoTeam = [])"
proof -
  let ?ys = "fisherYates rnd (memberNames d)"
  let ?n = "memberCount d"
  have perm: "mset ?ys = mset (memberNames d)" and len: "length ?ys = ?n"
    using fisherYates_perm [of rnd "memberNames d"] assms(1) by simp_all
  have le: "alphaSize ?n \<le> ?n" using assms(2) by (simp add: alphaSize_half)
  have one: "?n = 1 \<longrightarrow> take (alphaSize ?n) ?ys = memberNames d \<and> drop (alphaSize ?n) ?ys = []"
  proof
    assume n1: "?n = 1"
    then obtain x where x: "memberNames d = [x]"
      using assms(1) by (cases "memberNames d") simp_all
    have "mset ?ys = {#x#}" using perm x by simp
    then have "?ys = [x]" by simp
    then show "take (alphaSize ?n) ?ys = memberNames d \<and> drop (alphaSize ?n) ?ys = []"
      using n1 x by (simp add: alphaSize_half)
  qed
  have app: "mset (take (alphaSize ?n) ?ys @ drop (alphaSize ?n) ?ys) = mset (memberNames d)"
    using perm by (simp only: append_take_drop_id)
  have la: "length (take (alphaSize ?n) ?ys) = nat \<lceil>real ?n / 2\<rceil>"
    using len le by (simp add: alphaSize_def)
  have lb: "length (drop (alphaSize ?n) ?ys) = ?n - nat \<lceil>real ?n / 2\<rceil>"
    using len by (simp add: alphaSize_def)
  show ?thesis
    using splitTeams_shuffled [OF assms(1), of rnd] app la lb one by blast
qed

theorem divideTeams_sizes_witness:
  "memberCount (exampleDom 3 [''a'', ''b'', ''c''])
     = length (memberNames (exampleDom 3 [''a'', ''b'', ''c'']))
   \<and> 1 \<le> memberCount (exampleDom 3 [''a'', ''b'', ''c''])
   \<and> splitTeams varied (exampleDom 3 [''a'', ''b'', ''c'']) = Inr ([''c'', ''b''], [''a''])
   \<and> (\<exists>alphaTeam bravoTeam.
         splitTeams varied (exampleDom 3 [''a'', ''b'', ''c'']) = Inr (alphaTeam, bravoTeam)
         \<and> length alphaTeam = 2 \<and> length bravoTeam = 1
         \<and> mset (alphaTeam @ bravoTeam) = mset [''a'', ''b'', ''c''])"
proof -
  have h1: "memberCount (exampleDom 3 [''a'', ''b'', ''c''])
              = length (memberNames (exampleDom 3 [''a'', ''b'', ''c'']))"
    by (simp add: exampleDom_def)
  have h2: "1 \<le> memberCount (exampleDom 3 [''a'', ''b'', ''c''])"
    by (simp add: exampleDom_def)
  have run: "splitTeams varied (exampleDom 3 [''a'', ''b'', ''c'']) = Inr ([''c'', ''b''], [''a''])"
    by (simp add: splitTeams_def readMemberNames_def exampleDom_def shuffleArray_def varied_def
        floorRandom_values Let_def numeral_2_eq_2 alphaSize_def)
  show ?thesis
    using h1 h2 run divideTeams_sizes [OF h1 h2, of varied] by (simp add: exampleDom_def)
qed

lemma fisherYates_pair: "fisherYates rnd [x, x] = [x, x]"
proof -
  have m: "mset (fisherYates rnd [x, x]) = mset [x, x]"
    and l: "length (fisherYates rnd [x, x]) = 2"
    using fisherYates_perm [of rnd "[x, x]"] by simp_all
  from l obtain y z where yz: "fisherYates rnd [x, x] = [y, z]"
    by (auto simp: length_Suc_conv numeral_2_eq_2)
  have "set [y, z] = set [x, x]" using m yz by (metis mset_eq_setD)
  then have "y = x \<and> z = x" by auto
  then show ?thesis using yz by simp
qed

text \<open>
  C7. Two members with the same name \<open>X\<close>: whatever the draws, the division ends with
  member 1 in the bravo team, its alpha entry overwritten, and with no entry for member 2.
\<close>

theorem divideTeams_same_name:
  "\<forall>rnd. divideTeams rnd sameNames initialApp = Inr (initialApp\<lparr>currentTeams := [1 \<mapsto> Bravo]\<rparr>)
     \<and> (\<exists>st'. divideTeams rnd sameNames initialApp = Inr st' \<and> currentTeams st' 2 = None)"
proof
  fix rnd
  have "splitTeams rnd sameNames = Inr ([''X''], [''X''])"
    using splitTeams_shuffled [of sameNames rnd]
    by (simp add: sameNames_def exampleDom_def fisherYates_pair alphaSize_half)
  then have "divideTeams rnd sameNames initialApp = Inr (initialApp\<lparr>currentTeams := [1 \<mapsto> Bravo]\<rparr>)"
    by (simp add: divideTeams_def displayTeamResults_def readMemberNames_def assignTeam_def
        sameNames_def exampleDom_def)
  then show "divideTeams rnd sameNames initialApp = Inr (initialApp\<lparr>currentTeams := [1 \<mapsto> Bravo]\<rparr>)
     \<and> (\<exists>st'. divideTeams rnd sameNames initialApp = Inr st' \<and> currentTeams st' 2 = None)"
    by simp
qed

section \<open>Refused store writes\<close>

text \<open>
  C9. With a store that refuses every write and three successful requests,
  \<open>fetchAndCacheData\<close> raises the store's error after it has replaced the catalogs in
  memory, and \<open>refreshData\<close> ends in its failure branch with the filters not initialised.
\<close>

theorem refresh_store_failure_propagates:
  "fst (fetchAndCacheData initialApp deniedStore fetchedExample) = Some QuotaExceeded
   \<and> rules (data (fst (snd (fetchAndCacheData initialApp deniedStore fetchedExample))))
       = [exampleItem ''area'']
   \<and> fst (refreshData initialApp deniedStore fetchedExample) = True
   \<and> selectedItems (fst (snd (refreshData initialApp deniedStore fetchedExample))) = noSelections"
  by (simp add: fetchAndCacheData_def refreshData_def fetchedExample_def deniedStore_def
      setItem_def removeItem_def initialApp_def exampleItem_def EXCLUDED_ITEMS_rule_def
      EXCLUDED_ITEMS_stage_def Let_def)

section \<open>Catalog type given to the draw\<close>




end
